theory Spec2Isabelle
  imports Complex_Main
begin

section \<open>The checkout resource store (src/lib/ucp/checkoutStore.ts, lines 1 to 74)\<close>

text \<open>
  A JavaScript \<open>number\<close> that arrives in a JSON document is a finite double, hence a
  rational; the only tests the program applies to a quantity are \<open>Number.isInteger\<close>
  and \<open>> 0\<close>, which are exact on rationals. Quantities are therefore of type \<open>rat\<close>.
\<close>

record CartLine =
  productId :: string
  quantity :: rat

datatype CheckoutStatus = CREATED | COMPLETED | CANCELED

text \<open>The field \<open>id\<close> of the source is \<open>cid\<close> here (\<open>id\<close> is the identity of HOL).\<close>

record Checkout =
  cid :: string
  status :: CheckoutStatus
  lines :: "CartLine list"
  createdAt :: string
  updatedAt :: string

text \<open>
  Checkout objects are JavaScript objects: the \<open>Map\<close> holds references, and the
  functions of the store return references, not copies. The model keeps the objects in an
  explicit heap: a reference is an index into the list of all objects allocated so far, an
  object literal \<open>{ ... }\<close> allocates the next index, and the \<open>Map\<close> is a partial
  function from checkout ids to references. No function of the module writes to an array,
  so a line list is carried by value inside its object.
\<close>

type_synonym ref = nat

record store_state =
  objects :: "Checkout list"
  store :: "string \<rightharpoonup> ref"

definition empty_store :: store_state where
  "empty_store = \<lparr>objects = [], store = Map.empty\<rparr>"

definition deref :: "store_state \<Rightarrow> ref \<Rightarrow> Checkout" where
  "deref s r = objects s ! r"

definition alloc :: "Checkout \<Rightarrow> store_state \<Rightarrow> ref \<times> store_state" where
  "alloc c s = (length (objects s), s\<lparr>objects := objects s @ [c]\<rparr>)"

definition store_set :: "string \<Rightarrow> ref \<Rightarrow> store_state \<Rightarrow> store_state" where
  "store_set k r s = s\<lparr>store := (store s)(k \<mapsto> r)\<rparr>"

text \<open>
  \<open>randomId()\<close> and \<open>nowIso()\<close> read the random generator and the clock. Their
  results are inputs of the model: \<open>rid\<close> is the string \<open>randomId()\<close> returns at this
  call and \<open>now\<close> the string \<open>nowIso()\<close> returns.
\<close>

record env =
  rid :: string
  now :: string

definition createCheckout :: "env \<Rightarrow> CartLine list \<Rightarrow> store_state \<Rightarrow> ref \<times> store_state" where
  "createCheckout e ls s =
     (let i = rid e;
          t = now e;
          checkout = \<lparr>cid = i, status = CREATED, lines = ls, createdAt = t, updatedAt = t\<rparr>;
          (r, s1) = alloc checkout s
      in (r, store_set i r s1))"

definition getCheckout :: "string \<Rightarrow> store_state \<Rightarrow> ref option" where
  "getCheckout i s = store s i"

definition updateCheckout ::
  "env \<Rightarrow> string \<Rightarrow> CartLine list \<Rightarrow> store_state \<Rightarrow> ref option \<times> store_state" where
  "updateCheckout e i ls s =
     (case store s i of
        None \<Rightarrow> (None, s)
      | Some r \<Rightarrow>
          if status (deref s r) \<noteq> CREATED then (Some r, s)
          else
            (let (r', s1) = alloc ((deref s r)\<lparr>lines := ls, updatedAt := now e\<rparr>) s
             in (Some r', store_set i r' s1)))"

definition completeCheckout :: "env \<Rightarrow> string \<Rightarrow> store_state \<Rightarrow> ref option \<times> store_state" where
  "completeCheckout e i s =
     (case store s i of
        None \<Rightarrow> (None, s)
      | Some r \<Rightarrow>
          if status (deref s r) \<noteq> CREATED then (Some r, s)
          else
            (let (r', s1) = alloc ((deref s r)\<lparr>status := COMPLETED, updatedAt := now e\<rparr>) s
             in (Some r', store_set i r' s1)))"

definition cancelCheckout :: "env \<Rightarrow> string \<Rightarrow> store_state \<Rightarrow> ref option \<times> store_state" where
  "cancelCheckout e i s =
     (case store s i of
        None \<Rightarrow> (None, s)
      | Some r \<Rightarrow>
          if status (deref s r) \<noteq> CREATED then (Some r, s)
          else
            (let (r', s1) = alloc ((deref s r)\<lparr>status := CANCELED, updatedAt := now e\<rparr>) s
             in (Some r', store_set i r' s1)))"

text \<open>
  A well-formed store: every reference held by the \<open>Map\<close> points to an allocated
  object, and that object carries the id it is filed under.
\<close>

definition wf_store :: "store_state \<Rightarrow> bool" where
  "wf_store s \<longleftrightarrow>
     (\<forall>k r. store s k = Some r \<longrightarrow> r < length (objects s) \<and> cid (deref s r) = k)"

text \<open>Sequences of store operations, each with the clock and random values it reads.\<close>

datatype store_op =
    Create env "CartLine list"
  | Get string
  | Update env string "CartLine list"
  | Complete env string
  | Cancel env string

fun step :: "store_op \<Rightarrow> store_state \<Rightarrow> ref option \<times> store_state" where
  "step (Create e ls) s = (let (r, s') = createCheckout e ls s in (Some r, s'))"
| "step (Get i) s = (getCheckout i s, s)"
| "step (Update e i ls) s = updateCheckout e i ls s"
| "step (Complete e i) s = completeCheckout e i s"
| "step (Cancel e i) s = cancelCheckout e i s"

fun run :: "store_op list \<Rightarrow> store_state \<Rightarrow> store_state" where
  "run [] s = s"
| "run (x # xs) s = run xs (snd (step x s))"

definition terminal :: "CheckoutStatus \<Rightarrow> bool" where
  "terminal st \<longleftrightarrow> st = COMPLETED \<or> st = CANCELED"


section \<open>The Resource API (route handlers under src/app/api/ucp)\<close>

text \<open>
  The handlers of \<open>checkout/[id]/route.ts\<close>, \<open>checkout/[id]/complete/route.ts\<close> and
  \<open>checkout/[id]/cancel/route.ts\<close>, and the creating handler, which is the second
  \<open>POST\<close> of src/unnamed/part_000.

  A handler reads its body with \<open>req.json()\<close> at the declared type
  \<open>{ lines?: CartLine[] }\<close>; nothing checks the elements of the array at run time.
  \<open>InvalidJson\<close> is a body for which \<open>req.json()\<close> (or the access \<open>body.lines\<close>, on
  the JSON value \<open>null\<close>) throws. \<open>Undefined\<close> is a body whose \<open>lines\<close> is absent or
  \<open>null\<close>, \<open>NonArray\<close> one whose \<open>lines\<close> is present but not an array.
\<close>

datatype lines_field = Undefined | NonArray | Array "CartLine list"

datatype req_body = InvalidJson | Body lines_field

text \<open>
  The JSON documents that travel in responses and tool results. A field name that two
  types of the source share gets a prefix in all but one of them: \<open>item.id\<close> is
  \<open>item_id\<close>, the \<open>quantity\<close> of a line item \<open>li_quantity\<close>, the fields of the
  gateway's checkout \<open>u_id\<close>, \<open>u_status\<close>, ..., the \<open>id\<close> of \<open>IdParams\<close> \<open>p_id\<close>, and the
  fields of \<open>UpdateCheckoutParams\<close> \<open>up_id\<close> and \<open>up_line_items\<close>.
\<close>

record ItemRef =
  item_id :: string

record LineItem =
  item :: ItemRef
  li_quantity :: rat

record UcpCheckout =
  u_id :: string
  u_status :: CheckoutStatus
  u_line_items :: "LineItem list"
  u_createdAt :: string
  u_updatedAt :: string

datatype payload =
    CheckoutJson Checkout
  | UcpCheckoutJson UcpCheckout
  | ErrorJson string
  | ErrorHintJson string string

datatype response = Response (code: nat) (payload: payload)

definition ok :: "response \<Rightarrow> bool" where
  "ok res \<longleftrightarrow> 200 \<le> code res \<and> code res \<le> 299"

definition lines_error :: response where
  "lines_error = Response 400 (ErrorJson ''lines is required and must be a non-empty array'')"

definition json_error :: response where
  "json_error = Response 400 (ErrorJson ''invalid json'')"

definition not_found :: response where
  "not_found = Response 404 (ErrorJson ''not found'')"

text \<open>\<open>body.lines ?? []\<close>\<close>

definition lines_or_empty :: "lines_field \<Rightarrow> lines_field" where
  "lines_or_empty f = (case f of Undefined \<Rightarrow> Array [] | _ \<Rightarrow> f)"

text \<open>\<open>POST /api/ucp/checkout\<close>\<close>

definition POST_checkout :: "env \<Rightarrow> req_body \<Rightarrow> store_state \<Rightarrow> response \<times> store_state" where
  "POST_checkout e req s =
     (case req of
        InvalidJson \<Rightarrow> (json_error, s)
      | Body f \<Rightarrow>
          (case lines_or_empty f of
             Array ls \<Rightarrow>
               if length ls = 0 then (lines_error, s)
               else (let (r, s') = createCheckout e ls s
                     in (Response 201 (CheckoutJson (deref s' r)), s'))
           | _ \<Rightarrow> (lines_error, s)))"

text \<open>\<open>GET /api/ucp/checkout/[id]\<close>\<close>

definition GET_checkout :: "string \<Rightarrow> store_state \<Rightarrow> response \<times> store_state" where
  "GET_checkout i s =
     (case getCheckout i s of
        None \<Rightarrow> (not_found, s)
      | Some r \<Rightarrow> (Response 200 (CheckoutJson (deref s r)), s))"

text \<open>\<open>PATCH /api/ucp/checkout/[id]\<close>\<close>

definition PATCH_checkout ::
  "env \<Rightarrow> string \<Rightarrow> req_body \<Rightarrow> store_state \<Rightarrow> response \<times> store_state" where
  "PATCH_checkout e i req s =
     (case req of
        InvalidJson \<Rightarrow> (json_error, s)
      | Body f \<Rightarrow>
          (case lines_or_empty f of
             Array ls \<Rightarrow>
               if length ls = 0 then (lines_error, s)
               else
                 (case updateCheckout e i ls s of
                    (None, s') \<Rightarrow> (not_found, s')
                  | (Some r, s') \<Rightarrow> (Response 200 (CheckoutJson (deref s' r)), s'))
           | _ \<Rightarrow> (lines_error, s)))"

text \<open>\<open>POST /api/ucp/checkout/[id]/complete\<close>\<close>

fun status_name :: "CheckoutStatus \<Rightarrow> string" where
  "status_name CREATED = ''CREATED''"
| "status_name COMPLETED = ''COMPLETED''"
| "status_name CANCELED = ''CANCELED''"

definition POST_complete :: "env \<Rightarrow> string \<Rightarrow> store_state \<Rightarrow> response \<times> store_state" where
  "POST_complete e i s =
     (if i = [] then (Response 400 (ErrorJson ''missing checkout id''), s)
      else
        (case completeCheckout e i s of
           (None, s') \<Rightarrow>
             (let hint =
                (case getCheckout i s' of
                   Some r \<Rightarrow> ''checkout exists but status is '' @ status_name (status (deref s' r))
                 | None \<Rightarrow> ''checkout not in store (create and complete must hit the same app)'')
              in (Response 404 (ErrorHintJson ''not found'' hint), s'))
         | (Some r, s') \<Rightarrow> (Response 200 (CheckoutJson (deref s' r)), s')))"

text \<open>\<open>POST /api/ucp/checkout/[id]/cancel\<close>\<close>

definition POST_cancel :: "env \<Rightarrow> string \<Rightarrow> store_state \<Rightarrow> response \<times> store_state" where
  "POST_cancel e i s =
     (case cancelCheckout e i s of
        (None, s') \<Rightarrow> (not_found, s')
      | (Some r, s') \<Rightarrow> (Response 200 (CheckoutJson (deref s' r)), s'))"

text \<open>
  The requests a gateway sends to the Resource API, and the routing of each to its
  handler. A checkout id is one path segment.
\<close>

datatype http_request =
    ReqCreate req_body
  | ReqGet string
  | ReqPatch string req_body
  | ReqComplete string
  | ReqCancel string

fun rest_api :: "env \<Rightarrow> http_request \<Rightarrow> store_state \<Rightarrow> response \<times> store_state" where
  "rest_api e (ReqCreate b) s = POST_checkout e b s"
| "rest_api e (ReqGet i) s = GET_checkout i s"
| "rest_api e (ReqPatch i b) s = PATCH_checkout e i b s"
| "rest_api e (ReqComplete i) s = POST_complete e i s"
| "rest_api e (ReqCancel i) s = POST_cancel e i s"

section \<open>The tool schemas of the gateways\<close>

text \<open>
  There are two gateways: the one over HTTP, mcp/ucp-checkout-mcp-http.ts (its text follows
  the store in src/lib/ucp/checkoutStore.ts, from line 75), and the one over stdio,
  mcp/ucp-checkout-mcp.ts. Their schemas \<open>MetaShape\<close>, \<open>LineItem\<close>,
  \<open>CreateCheckoutParams\<close>, \<open>IdParams\<close> and \<open>UpdateCheckoutParams\<close> are the same,
  declaration for declaration.

  The arguments of a tool call are an arbitrary JSON value until the schema of the tool has
  accepted them. An object is the list of its members; a parsed object has each key once.
\<close>

datatype json =
    JNull
  | JBool bool
  | JNum rat
  | JStr string
  | JArr "json list"
  | JObj "(string \<times> json) list"

fun get_field :: "string \<Rightarrow> json \<Rightarrow> json option" where
  "get_field k (JObj kvs) = map_of kvs k"
| "get_field k _ = None"

text \<open>\<open>z.string().min(1)\<close>\<close>

fun z_string_min1 :: "json option \<Rightarrow> string option" where
  "z_string_min1 (Some (JStr x)) = (if length x \<ge> 1 then Some x else None)"
| "z_string_min1 _ = None"

text \<open>\<open>z.string().optional()\<close>: absent is accepted, a value that is not a string is not.\<close>

fun z_string_optional :: "json option \<Rightarrow> string option option" where
  "z_string_optional None = Some None"
| "z_string_optional (Some (JStr x)) = Some (Some x)"
| "z_string_optional _ = None"

text \<open>\<open>Number.isInteger\<close>, which \<open>.int()\<close> applies.\<close>

definition is_integer :: "rat \<Rightarrow> bool" where
  "is_integer q \<longleftrightarrow> q = of_int \<lfloor>q\<rfloor>"

text \<open>\<open>z.number().int().positive()\<close>\<close>

fun z_number_int_positive :: "json option \<Rightarrow> rat option" where
  "z_number_int_positive (Some (JNum q)) = (if is_integer q \<and> q > 0 then Some q else None)"
| "z_number_int_positive _ = None"

text \<open>\<open>MetaShape\<close>: \<open>{ _meta: { ucp: { profile: z.string().min(1) } } }\<close>\<close>

record MetaShape =
  profile :: string

definition parse_MetaShape :: "json \<Rightarrow> string option" where
  "parse_MetaShape j =
     (case get_field ''_meta'' j of
        None \<Rightarrow> None
      | Some m \<Rightarrow>
          (case get_field ''ucp'' m of
             None \<Rightarrow> None
           | Some u \<Rightarrow> z_string_min1 (get_field ''profile'' u)))"

text \<open>\<open>LineItem\<close>: \<open>{ item: { id: z.string().min(1) }, quantity: z.number().int().positive() }\<close>\<close>

definition parse_LineItem :: "json \<Rightarrow> LineItem option" where
  "parse_LineItem j =
     (case get_field ''item'' j of
        None \<Rightarrow> None
      | Some it \<Rightarrow>
          (case z_string_min1 (get_field ''id'' it) of
             None \<Rightarrow> None
           | Some i \<Rightarrow>
               (case z_number_int_positive (get_field ''quantity'' j) of
                  None \<Rightarrow> None
                | Some q \<Rightarrow> Some \<lparr>item = \<lparr>item_id = i\<rparr>, li_quantity = q\<rparr>)))"

text \<open>\<open>z.array(LineItem).min(1)\<close>\<close>

fun z_array_LineItem_min1 :: "json option \<Rightarrow> LineItem list option" where
  "z_array_LineItem_min1 (Some (JArr xs)) =
     (case those (map parse_LineItem xs) of
        None \<Rightarrow> None
      | Some ys \<Rightarrow> if length ys \<ge> 1 then Some ys else None)"
| "z_array_LineItem_min1 _ = None"

record CreateCheckoutParams = MetaShape +
  idempotency_key :: "string option"
  currency :: "string option"
  line_items :: "LineItem list"

definition parse_CreateCheckoutParams :: "json \<Rightarrow> CreateCheckoutParams option" where
  "parse_CreateCheckoutParams j =
     (case parse_MetaShape j of
        None \<Rightarrow> None
      | Some p \<Rightarrow>
          (case z_string_optional (get_field ''idempotency_key'' j) of
             None \<Rightarrow> None
           | Some k \<Rightarrow>
               (case z_string_optional (get_field ''currency'' j) of
                  None \<Rightarrow> None
                | Some c \<Rightarrow>
                    (case z_array_LineItem_min1 (get_field ''line_items'' j) of
                       None \<Rightarrow> None
                     | Some ls \<Rightarrow>
                         Some \<lparr>profile = p, idempotency_key = k, currency = c,
                               line_items = ls\<rparr>))))"

record IdParams = MetaShape +
  p_id :: string

definition parse_IdParams :: "json \<Rightarrow> IdParams option" where
  "parse_IdParams j =
     (case parse_MetaShape j of
        None \<Rightarrow> None
      | Some p \<Rightarrow>
          (case z_string_min1 (get_field ''id'' j) of
             None \<Rightarrow> None
           | Some i \<Rightarrow> Some \<lparr>profile = p, p_id = i\<rparr>))"

record UpdateCheckoutParams = MetaShape +
  up_id :: string
  up_line_items :: "LineItem list"

definition parse_UpdateCheckoutParams :: "json \<Rightarrow> UpdateCheckoutParams option" where
  "parse_UpdateCheckoutParams j =
     (case parse_MetaShape j of
        None \<Rightarrow> None
      | Some p \<Rightarrow>
          (case z_string_min1 (get_field ''id'' j) of
             None \<Rightarrow> None
           | Some i \<Rightarrow>
               (case z_array_LineItem_min1 (get_field ''line_items'' j) of
                  None \<Rightarrow> None
                | Some ls \<Rightarrow> Some \<lparr>profile = p, up_id = i, up_line_items = ls\<rparr>)))"

section \<open>The tool handlers of the gateways\<close>

text \<open>
  What a gateway and a client act on: the store of the Next.js process, whether the
  Resource API answers at \<open>UCP_BASE_URL\<close>, and the requests the gateway has sent there
  so far.
\<close>

record world =
  app :: store_state
  up :: bool
  sent :: "http_request list"

text \<open>
  \<open>fetch(`${UCP_BASE_URL}...`)\<close>: the request is sent; the Resource API handles it, or
  \<open>fetch\<close> throws when nothing answers.
\<close>

definition fetch_upstream :: "env \<Rightarrow> http_request \<Rightarrow> world \<Rightarrow> response option \<times> world" where
  "fetch_upstream e req w =
     (let w1 = w\<lparr>sent := sent w @ [req]\<rparr>
      in if up w
         then (let (res, s') = rest_api e req (app w) in (Some res, w1\<lparr>app := s'\<rparr>))
         else (None, w1))"

datatype tool_error =
    InvalidInput
  | UnknownTool
  | FetchFailed
  | UpstreamFailure string nat payload
  | RestFailure nat payload
  | HandlerThrew

text \<open>
  The text of a content item, read as \<open>JSON.parse\<close> reads it: not JSON, or a JSON object
  with or without a \<open>checkout\<close> member.
\<close>

datatype text_json = TextNotJson | TextJson "payload option"

record content_item =
  ctype :: string
  ctext :: "text_json option"

text \<open>\<open>{ content: [{ type: "text", text: JSON.stringify({ checkout }, null, 2) }] }\<close>\<close>

definition checkout_content :: "payload \<Rightarrow> content_item list" where
  "checkout_content p = [\<lparr>ctype = ''text'', ctext = Some (TextJson (Some p))\<rparr>]"

subsection \<open>The gateway over HTTP (mcp/ucp-checkout-mcp-http.ts)\<close>

definition toLines :: "LineItem list \<Rightarrow> CartLine list" where
  "toLines items = map (\<lambda>li. \<lparr>productId = item_id (item li), quantity = li_quantity li\<rparr>) items"

definition assertOk :: "response \<Rightarrow> string \<Rightarrow> tool_error option" where
  "assertOk res label = (if ok res then None else Some (UpstreamFailure label (code res) (payload res)))"

type_synonym tool_result = "(tool_error + content_item list) \<times> world"

definition http_create_checkout :: "CreateCheckoutParams \<Rightarrow> env \<Rightarrow> world \<Rightarrow> tool_result" where
  "http_create_checkout p e w =
     (case fetch_upstream e (ReqCreate (Body (Array (toLines (line_items p))))) w of
        (None, w') \<Rightarrow> (Inl FetchFailed, w')
      | (Some res, w') \<Rightarrow>
          (case assertOk res ''create_checkout'' of
             Some err \<Rightarrow> (Inl err, w')
           | None \<Rightarrow> (Inr (checkout_content (payload res)), w')))"

definition http_get_checkout :: "IdParams \<Rightarrow> env \<Rightarrow> world \<Rightarrow> tool_result" where
  "http_get_checkout p e w =
     (case fetch_upstream e (ReqGet (p_id p)) w of
        (None, w') \<Rightarrow> (Inl FetchFailed, w')
      | (Some res, w') \<Rightarrow>
          (case assertOk res ''get_checkout'' of
             Some err \<Rightarrow> (Inl err, w')
           | None \<Rightarrow> (Inr (checkout_content (payload res)), w')))"

definition http_update_checkout :: "UpdateCheckoutParams \<Rightarrow> env \<Rightarrow> world \<Rightarrow> tool_result" where
  "http_update_checkout p e w =
     (case fetch_upstream e (ReqPatch (up_id p) (Body (Array (toLines (up_line_items p))))) w of
        (None, w') \<Rightarrow> (Inl FetchFailed, w')
      | (Some res, w') \<Rightarrow>
          (case assertOk res ''update_checkout'' of
             Some err \<Rightarrow> (Inl err, w')
           | None \<Rightarrow> (Inr (checkout_content (payload res)), w')))"

definition http_complete_checkout :: "IdParams \<Rightarrow> env \<Rightarrow> world \<Rightarrow> tool_result" where
  "http_complete_checkout p e w =
     (case fetch_upstream e (ReqComplete (p_id p)) w of
        (None, w') \<Rightarrow> (Inl FetchFailed, w')
      | (Some res, w') \<Rightarrow>
          (case assertOk res ''complete_checkout'' of
             Some err \<Rightarrow> (Inl err, w')
           | None \<Rightarrow> (Inr (checkout_content (payload res)), w')))"

definition http_cancel_checkout :: "IdParams \<Rightarrow> env \<Rightarrow> world \<Rightarrow> tool_result" where
  "http_cancel_checkout p e w =
     (case fetch_upstream e (ReqCancel (p_id p)) w of
        (None, w') \<Rightarrow> (Inl FetchFailed, w')
      | (Some res, w') \<Rightarrow>
          (case assertOk res ''cancel_checkout'' of
             Some err \<Rightarrow> (Inl err, w')
           | None \<Rightarrow> (Inr (checkout_content (payload res)), w')))"

subsection \<open>The gateway over stdio (mcp/ucp-checkout-mcp.ts)\<close>

definition toRestLines :: "LineItem list \<Rightarrow> CartLine list" where
  "toRestLines items =
     map (\<lambda>li. \<lparr>productId = item_id (item li), quantity = li_quantity li\<rparr>) items"

definition toUcpCheckout :: "Checkout \<Rightarrow> UcpCheckout" where
  "toUcpCheckout c =
     \<lparr>u_id = cid c,
      u_status = status c,
      u_line_items =
        map (\<lambda>l. \<lparr>item = \<lparr>item_id = productId l\<rparr>, li_quantity = quantity l\<rparr>) (lines c),
      u_createdAt = createdAt c,
      u_updatedAt = updatedAt c\<rparr>"

definition rest :: "env \<Rightarrow> http_request \<Rightarrow> world \<Rightarrow> (tool_error + payload) \<times> world" where
  "rest e req w =
     (case fetch_upstream e req w of
        (None, w') \<Rightarrow> (Inl FetchFailed, w')
      | (Some res, w') \<Rightarrow>
          if \<not> ok res then (Inl (RestFailure (code res) (payload res)), w')
          else (Inr (payload res), w'))"

text \<open>
  The return statement the five handlers share:
  \<open>{ content: [{ type: "text", text: JSON.stringify({ checkout: toUcpCheckout(checkout) }) }] }\<close>.
  \<open>toUcpCheckout\<close> reads \<open>rest.lines.map\<close>: on a document that is not a checkout it
  throws.
\<close>

definition ucp_result :: "(tool_error + payload) \<times> world \<Rightarrow> tool_result" where
  "ucp_result x =
     (case x of
        (Inl err, w') \<Rightarrow> (Inl err, w')
      | (Inr (CheckoutJson c), w') \<Rightarrow>
          (Inr (checkout_content (UcpCheckoutJson (toUcpCheckout c))), w')
      | (Inr _, w') \<Rightarrow> (Inl HandlerThrew, w'))"

definition stdio_create_checkout :: "CreateCheckoutParams \<Rightarrow> env \<Rightarrow> world \<Rightarrow> tool_result" where
  "stdio_create_checkout p e w =
     ucp_result (rest e (ReqCreate (Body (Array (toRestLines (line_items p))))) w)"

definition stdio_get_checkout :: "IdParams \<Rightarrow> env \<Rightarrow> world \<Rightarrow> tool_result" where
  "stdio_get_checkout p e w = ucp_result (rest e (ReqGet (p_id p)) w)"

definition stdio_update_checkout :: "UpdateCheckoutParams \<Rightarrow> env \<Rightarrow> world \<Rightarrow> tool_result" where
  "stdio_update_checkout p e w =
     ucp_result (rest e (ReqPatch (up_id p) (Body (Array (toRestLines (up_line_items p))))) w)"

definition stdio_complete_checkout :: "IdParams \<Rightarrow> env \<Rightarrow> world \<Rightarrow> tool_result" where
  "stdio_complete_checkout p e w = ucp_result (rest e (ReqComplete (p_id p)) w)"

definition stdio_cancel_checkout :: "IdParams \<Rightarrow> env \<Rightarrow> world \<Rightarrow> tool_result" where
  "stdio_cancel_checkout p e w = ucp_result (rest e (ReqCancel (p_id p)) w)"

subsection \<open>Tool dispatch\<close>

text \<open>
  Modelled from the spec: the dispatch of \<open>server.tool(name, schema, handler)\<close>, which the
  MCP SDK implements and the repository only calls. "Input schema validation precedes the
  upstream call": the arguments are parsed against the schema of the tool; the handler runs
  only on arguments the schema accepts, and otherwise the call fails with \<open>InvalidInput\<close>.
\<close>

definition call_tool ::
  "(json \<Rightarrow> 'p option) \<Rightarrow> ('p \<Rightarrow> env \<Rightarrow> world \<Rightarrow> tool_result) \<Rightarrow> json \<Rightarrow> env \<Rightarrow> world \<Rightarrow> tool_result"
  where
  "call_tool schema handler args e w =
     (case schema args of
        None \<Rightarrow> (Inl InvalidInput, w)
      | Some p \<Rightarrow> handler p e w)"

text \<open>The tools each gateway registers, by wire name.\<close>

definition http_tools_call :: "string \<Rightarrow> json \<Rightarrow> env \<Rightarrow> world \<Rightarrow> tool_result" where
  "http_tools_call name args e w =
     (if name = ''create_checkout''
        then call_tool parse_CreateCheckoutParams http_create_checkout args e w
      else if name = ''get_checkout''
        then call_tool parse_IdParams http_get_checkout args e w
      else if name = ''update_checkout''
        then call_tool parse_UpdateCheckoutParams http_update_checkout args e w
      else if name = ''complete_checkout''
        then call_tool parse_IdParams http_complete_checkout args e w
      else if name = ''cancel_checkout''
        then call_tool parse_IdParams http_cancel_checkout args e w
      else (Inl UnknownTool, w))"

definition stdio_tools_call :: "string \<Rightarrow> json \<Rightarrow> env \<Rightarrow> world \<Rightarrow> tool_result" where
  "stdio_tools_call name args e w =
     (if name = ''create_checkout''
        then call_tool parse_CreateCheckoutParams stdio_create_checkout args e w
      else if name = ''get_checkout''
        then call_tool parse_IdParams stdio_get_checkout args e w
      else if name = ''update_checkout''
        then call_tool parse_UpdateCheckoutParams stdio_update_checkout args e w
      else if name = ''complete_checkout''
        then call_tool parse_IdParams stdio_complete_checkout args e w
      else if name = ''cancel_checkout''
        then call_tool parse_IdParams stdio_cancel_checkout args e w
      else (Inl UnknownTool, w))"

section \<open>The fetch client (src/lib/mcp-fetch-client.ts)\<close>

definition UCP_PROFILE :: string where
  "UCP_PROFILE = ''ucp.checkout.v1''"














text \<open>The JSON the client sends as the arguments of a tool call.\<close>

definition meta_json :: json where
  "meta_json = JObj [(''ucp'', JObj [(''profile'', JStr UCP_PROFILE)])]"

definition line_item_json :: "CartLine \<Rightarrow> json" where
  "line_item_json l =
     JObj [(''item'', JObj [(''id'', JStr (productId l))]), (''quantity'', JNum (quantity l))]"

definition create_arguments :: "CartLine list \<Rightarrow> json" where
  "create_arguments ls =
     JObj [(''_meta'', meta_json), (''line_items'', JArr (map line_item_json ls))]"




section \<open>The routes that choose a binding\<close>





section \<open>Servers\<close>

text \<open>
  The transport, the session handshake and the JSON-RPC framing on the gateway's side are
  the MCP SDK's, not the repository's. A server is therefore an input of the client: any
  function from requests to answers. The ones below are particular inputs.
\<close>


section \<open>Concrete inputs\<close>

text \<open>
  Three readings of the clock and the random generator, two line lists, and the stores
  after creating a checkout and after completing it.
\<close>

definition ex_env1 :: env where
  "ex_env1 = \<lparr>rid = ''co_1'', now = ''t1''\<rparr>"

definition ex_env2 :: env where
  "ex_env2 = \<lparr>rid = ''co_2'', now = ''t2''\<rparr>"

definition ex_env3 :: env where
  "ex_env3 = \<lparr>rid = ''co_3'', now = ''t3''\<rparr>"

definition ex_lines :: "CartLine list" where
  "ex_lines = [\<lparr>productId = ''p1'', quantity = 2\<rparr>]"

definition ex_lines' :: "CartLine list" where
  "ex_lines' = [\<lparr>productId = ''p2'', quantity = 5\<rparr>]"

definition ex_created :: store_state where
  "ex_created = run [Create ex_env1 ex_lines] empty_store"

definition ex_completed :: store_state where
  "ex_completed = run [Create ex_env1 ex_lines, Complete ex_env2 ''co_1''] empty_store"

definition ex_zero_lines :: "CartLine list" where
  "ex_zero_lines = [\<lparr>productId = ''p1'', quantity = 0\<rparr>]"

definition ex_half_lines :: "CartLine list" where
  "ex_half_lines = [\<lparr>productId = ''p1'', quantity = - 1 / 2\<rparr>]"

text \<open>The gateway in front of an empty store that answers.\<close>

definition ex_world :: world where
  "ex_world = \<lparr>app = empty_store, up = True, sent = []\<rparr>"

text \<open>Tool arguments with a profile tag nobody defines, and with an empty tag.\<close>

definition ex_bogus_arguments :: json where
  "ex_bogus_arguments =
     JObj [(''_meta'', JObj [(''ucp'', JObj [(''profile'', JStr ''no.such.profile.v99'')])]),
           (''line_items'', JArr (map line_item_json ex_lines))]"

definition ex_untagged_arguments :: json where
  "ex_untagged_arguments =
     JObj [(''_meta'', JObj [(''ucp'', JObj [(''profile'', JStr [])])]),
           (''line_items'', JArr (map line_item_json ex_lines))]"








definition ex_checkout_done :: Checkout where
  "ex_checkout_done =
     \<lparr>cid = ''co_1'', status = COMPLETED, lines = ex_lines, createdAt = ''t1'',
      updatedAt = ''t2''\<rparr>"

section \<open>Lemmas about the store\<close>

lemmas store_defs =
  createCheckout_def getCheckout_def updateCheckout_def completeCheckout_def
  cancelCheckout_def alloc_def store_set_def deref_def

lemma wf_empty_store: "wf_store empty_store"
  by (simp add: wf_store_def empty_store_def)

lemma wf_step: "wf_store s \<Longrightarrow> wf_store (snd (step x s))"
  by (cases x)
     (auto simp: wf_store_def store_defs Let_def nth_append less_Suc_eq
           split: option.splits if_splits)

lemma wf_run: "wf_store s \<Longrightarrow> wf_store (run xs s)"
  by (induction xs arbitrary: s) (simp_all add: wf_step)

text \<open>Every store that operations build from the empty one is well-formed.\<close>

lemma wf_reachable: "wf_store (run xs empty_store)"
  by (rule wf_run[OF wf_empty_store])

lemma terminal_not_created: "terminal st \<Longrightarrow> st \<noteq> CREATED"
  by (auto simp: terminal_def)

lemma complete_result_terminal:
  assumes "wf_store s" "completeCheckout e i s = (Some r1, s1)"
  shows "store s1 i = Some r1 \<and> status (deref s1 r1) \<noteq> CREATED \<and> cid (deref s1 r1) = i"
  using assms
  by (auto simp: wf_store_def store_defs Let_def nth_append split: option.splits if_splits)

text \<open>The heap only grows: an operation appends objects and rewrites none.\<close>

lemma step_objects_prefix: "\<exists>ys. objects (snd (step x s)) = objects s @ ys"
  by (cases x) (auto simp: store_defs Let_def split: option.splits)

lemma run_objects_prefix: "\<exists>ys. objects (run xs s) = objects s @ ys"
proof (induction xs arbitrary: s)
  case Nil
  then show ?case by simp
next
  case (Cons x xs)
  obtain ys where a: "objects (snd (step x s)) = objects s @ ys"
    using step_objects_prefix by blast
  obtain zs where b: "objects (run xs (snd (step x s))) = objects (snd (step x s)) @ zs"
    using Cons.IH by blast
  from a b show ?case by simp
qed

lemma step_returns_allocated:
  "wf_store s \<Longrightarrow> step x s = (Some r, s') \<Longrightarrow> r < length (objects s')"
  by (cases x)
     (auto simp: wf_store_def store_defs Let_def split: option.splits if_splits)

subsection \<open>The concrete stores\<close>

lemma ex_created_eq:
  "ex_created =
     \<lparr>objects = [\<lparr>cid = ''co_1'', status = CREATED, lines = ex_lines,
                  createdAt = ''t1'', updatedAt = ''t1''\<rparr>],
      store = [''co_1'' \<mapsto> 0]\<rparr>"
  by (simp add: ex_created_def ex_env1_def store_defs empty_store_def Let_def)

lemma ex_completed_eq:
  "ex_completed =
     \<lparr>objects = [\<lparr>cid = ''co_1'', status = CREATED, lines = ex_lines,
                  createdAt = ''t1'', updatedAt = ''t1''\<rparr>,
                 \<lparr>cid = ''co_1'', status = COMPLETED, lines = ex_lines,
                  createdAt = ''t1'', updatedAt = ''t2''\<rparr>],
      store = [''co_1'' \<mapsto> 1]\<rparr>"
  by (simp add: ex_completed_def ex_env1_def ex_env2_def store_defs empty_store_def Let_def)

lemma wf_ex_created: "wf_store ex_created"
  unfolding ex_created_def by (rule wf_run[OF wf_empty_store])

lemma wf_ex_completed: "wf_store ex_completed"
  unfolding ex_completed_def by (rule wf_run[OF wf_empty_store])

section \<open>The state machine of the store\<close>

text \<open>
  C1. On a checkout stored with status \<open>COMPLETED\<close> or \<open>CANCELED\<close>, \<open>updateCheckout\<close>
  (with any line list), \<open>completeCheckout\<close> and \<open>cancelCheckout\<close> each return the stored
  reference itself and leave the whole store, heap included, as it was: same status, same
  lines, same \<open>updatedAt\<close>. And completing the checkout that a \<open>completeCheckout\<close> returned
  returns that same checkout again and changes nothing. (The store is any well-formed one;
  by \<open>wf_reachable\<close> every store the operations build from the empty one is.)
\<close>

theorem terminal_mutations_are_noops:
  assumes "wf_store s"
  shows "(store s i = Some r \<and> terminal (status (deref s r)) \<longrightarrow>
            updateCheckout e i ls s = (Some r, s) \<and>
            completeCheckout e i s = (Some r, s) \<and>
            cancelCheckout e i s = (Some r, s)) \<and>
         (completeCheckout e i s = (Some r1, s1) \<longrightarrow>
            completeCheckout e' (cid (deref s1 r1)) s1 = (Some r1, s1))"
proof (intro conjI impI)
  assume a: "store s i = Some r \<and> terminal (status (deref s r))"
  then have nc: "status (deref s r) \<noteq> CREATED" by (simp add: terminal_not_created)
  from a nc show "updateCheckout e i ls s = (Some r, s)" by (simp add: updateCheckout_def)
  from a nc show "completeCheckout e i s = (Some r, s)" by (simp add: completeCheckout_def)
  from a nc show "cancelCheckout e i s = (Some r, s)" by (simp add: cancelCheckout_def)
next
  assume c: "completeCheckout e i s = (Some r1, s1)"
  from complete_result_terminal[OF assms c]
  show "completeCheckout e' (cid (deref s1 r1)) s1 = (Some r1, s1)"
    by (simp add: completeCheckout_def)
qed

theorem terminal_mutations_are_noops_witness:
  "wf_store ex_completed \<and>
   store ex_completed ''co_1'' = Some 1 \<and> terminal (status (deref ex_completed 1)) \<and>
   updateCheckout ex_env3 ''co_1'' ex_lines' ex_completed = (Some 1, ex_completed) \<and>
   completeCheckout ex_env3 ''co_1'' ex_completed = (Some 1, ex_completed) \<and>
   cancelCheckout ex_env3 ''co_1'' ex_completed = (Some 1, ex_completed) \<and>
   wf_store ex_created \<and>
   completeCheckout ex_env2 ''co_1'' ex_created = (Some 1, ex_completed) \<and>
   completeCheckout ex_env3 (cid (deref ex_completed 1)) ex_completed = (Some 1, ex_completed)"
proof -
  have a: "store ex_completed ''co_1'' = Some 1 \<and> terminal (status (deref ex_completed 1))"
    by (simp add: ex_completed_eq deref_def terminal_def)
  have c: "completeCheckout ex_env2 ''co_1'' ex_created = (Some 1, ex_completed)"
    by (simp add: ex_created_eq ex_completed_eq ex_env2_def store_defs Let_def)
  from a c
       terminal_mutations_are_noops
         [OF wf_ex_completed,
          where i = "''co_1''" and r = 1 and e = ex_env3 and ls = ex_lines']
       terminal_mutations_are_noops
         [OF wf_ex_created,
          where i = "''co_1''" and e = ex_env2 and ?r1.0 = 1 and ?s1.0 = ex_completed
            and e' = ex_env3]
       wf_ex_completed wf_ex_created
  show ?thesis by simp
qed

text \<open>
  C4, as the claim states it, fails: the id is whatever \<open>randomId()\<close> returns, and nothing
  compares it with the ids in the store. When \<open>randomId()\<close> returns \<open>co_1\<close> while the
  completed checkout \<open>co_1\<close> is stored, the id is not fresh and the create does not insert:
  it replaces the entry of \<open>co_1\<close> by the new \<open>CREATED\<close> checkout, and the store holds the
  same ids as before.
\<close>

theorem create_replaces_entry_of_repeated_id:
  "rid ex_env1 = ''co_1'' \<and>
   getCheckout ''co_1'' ex_completed = Some 1 \<and>
   deref ex_completed 1 = ex_checkout_done \<and>
   fst (POST_checkout ex_env1 (Body (Array ex_lines')) ex_completed) =
     Response 201 (CheckoutJson \<lparr>cid = ''co_1'', status = CREATED, lines = ex_lines',
                                 createdAt = ''t1'', updatedAt = ''t1''\<rparr>) \<and>
   getCheckout ''co_1'' (snd (POST_checkout ex_env1 (Body (Array ex_lines')) ex_completed)) =
     Some 2 \<and>
   deref (snd (POST_checkout ex_env1 (Body (Array ex_lines')) ex_completed)) 2 =
     \<lparr>cid = ''co_1'', status = CREATED, lines = ex_lines',
      createdAt = ''t1'', updatedAt = ''t1''\<rparr> \<and>
   dom (store (snd (POST_checkout ex_env1 (Body (Array ex_lines')) ex_completed))) =
     dom (store ex_completed)"
  by (simp add: POST_checkout_def lines_or_empty_def ex_env1_def ex_completed_eq
        ex_checkout_done_def ex_lines'_def store_defs Let_def)

text \<open>
  C4, amended. For a non-empty line list, \<open>POST /api/ucp/checkout\<close> answers 201 with a
  checkout of status \<open>CREATED\<close>, the given lines, and the id that \<open>randomId()\<close> returned
  for this call. It is the checkout \<open>createCheckout\<close> made: a newly allocated object, filed
  under that id. Nothing else changes: every other id maps where it did and every earlier
  object is what it was. When the id was not in the store, the store holds exactly that
  one id more; when it was, the store holds the same ids and the new checkout has taken
  the place of the old one.
\<close>

theorem create_files_checkout_under_drawn_id:
  "ls \<noteq> [] \<longrightarrow>
     (let (res, s') = POST_checkout e (Body (Array ls)) s;
          r = length (objects s);
          c = \<lparr>cid = rid e, status = CREATED, lines = ls, createdAt = now e, updatedAt = now e\<rparr>
      in res = Response 201 (CheckoutJson c) \<and>
         createCheckout e ls s = (r, s') \<and>
         deref s' r = c \<and>
         getCheckout (rid e) s' = Some r \<and>
         (\<forall>k. k \<noteq> rid e \<longrightarrow> getCheckout k s' = getCheckout k s) \<and>
         (\<forall>q < length (objects s). deref s' q = deref s q) \<and>
         length (objects s') = Suc (length (objects s)) \<and>
         (rid e \<notin> dom (store s) \<longrightarrow> dom (store s') = insert (rid e) (dom (store s))) \<and>
         (rid e \<in> dom (store s) \<longrightarrow> dom (store s') = dom (store s)))"
  by (auto simp: POST_checkout_def lines_or_empty_def store_defs Let_def nth_append)

theorem create_files_checkout_under_drawn_id_witness:
  "ex_lines \<noteq> [] \<and>
   fst (POST_checkout ex_env1 (Body (Array ex_lines)) empty_store) =
     Response 201 (CheckoutJson \<lparr>cid = ''co_1'', status = CREATED, lines = ex_lines,
                                 createdAt = ''t1'', updatedAt = ''t1''\<rparr>) \<and>
   getCheckout ''co_1'' (snd (POST_checkout ex_env1 (Body (Array ex_lines)) empty_store)) = Some 0 \<and>
   rid ex_env1 \<notin> dom (store empty_store) \<and>
   dom (store (snd (POST_checkout ex_env1 (Body (Array ex_lines)) empty_store))) = {''co_1''} \<and>
   rid ex_env1 \<in> dom (store ex_created) \<and>
   getCheckout ''co_1'' (snd (POST_checkout ex_env1 (Body (Array ex_lines)) ex_created)) = Some 1 \<and>
   dom (store (snd (POST_checkout ex_env1 (Body (Array ex_lines)) ex_created))) = {''co_1''}"
  using create_files_checkout_under_drawn_id [of ex_lines ex_env1 empty_store]
        create_files_checkout_under_drawn_id [of ex_lines ex_env1 ex_created]
  by (simp add: ex_lines_def ex_env1_def empty_store_def ex_created_eq Let_def split: prod.splits)

text \<open>
  C5. For an id that is not in the store, \<open>getCheckout\<close>, \<open>updateCheckout\<close>,
  \<open>completeCheckout\<close> and \<open>cancelCheckout\<close> each return \<open>null\<close> (here \<open>None\<close>), a value and
  not an exception, and the store is left as it was.
\<close>

theorem unknown_id_is_not_found:
  "store s i = None \<longrightarrow>
     getCheckout i s = None \<and>
     updateCheckout e i ls s = (None, s) \<and>
     completeCheckout e i s = (None, s) \<and>
     cancelCheckout e i s = (None, s)"
  by (simp add: store_defs)

theorem unknown_id_is_not_found_witness:
  "store ex_created ''co_9'' = None \<and>
   getCheckout ''co_9'' ex_created = None \<and>
   updateCheckout ex_env2 ''co_9'' ex_lines' ex_created = (None, ex_created) \<and>
   completeCheckout ex_env2 ''co_9'' ex_created = (None, ex_created) \<and>
   cancelCheckout ex_env2 ''co_9'' ex_created = (None, ex_created)"
proof -
  have h: "store ex_created ''co_9'' = None" by (simp add: ex_created_eq)
  with unknown_id_is_not_found [of ex_created "''co_9''" ex_env2 ex_lines'] show ?thesis
    by simp
qed

text \<open>
  C9. A checkout that an operation has returned is never written again: whatever sequence
  of create, get, update, complete and cancel follows, the object behind the returned
  reference has the fields it had when it was returned. (A transition allocates a new
  object and files it under the id; the object returned earlier stays as it was.)
\<close>

theorem returned_checkout_never_mutated:
  "wf_store s \<and> step x s = (Some r, s') \<longrightarrow>
     r < length (objects s') \<and> deref (run xs s') r = deref s' r"
proof (intro impI, elim conjE)
  assume wf: "wf_store s" and st: "step x s = (Some r, s')"
  have lt: "r < length (objects s')" using step_returns_allocated[OF wf st] .
  obtain ys where "objects (run xs s') = objects s' @ ys"
    using run_objects_prefix by blast
  with lt show "r < length (objects s') \<and> deref (run xs s') r = deref s' r"
    by (simp add: deref_def nth_append)
qed

theorem returned_checkout_never_mutated_witness:
  "wf_store empty_store \<and>
   step (Create ex_env1 ex_lines) empty_store = (Some 0, ex_created) \<and>
   deref (run [Update ex_env2 ''co_1'' ex_lines', Complete ex_env3 ''co_1''] ex_created) 0 =
     \<lparr>cid = ''co_1'', status = CREATED, lines = ex_lines, createdAt = ''t1'', updatedAt = ''t1''\<rparr>"
proof -
  have st: "step (Create ex_env1 ex_lines) empty_store = (Some 0, ex_created)"
    by (simp add: ex_created_eq ex_env1_def store_defs empty_store_def Let_def)
  have "deref ex_created 0 =
     \<lparr>cid = ''co_1'', status = CREATED, lines = ex_lines, createdAt = ''t1'', updatedAt = ''t1''\<rparr>"
    by (simp add: ex_created_eq deref_def)
  with returned_checkout_never_mutated
         [of empty_store "Create ex_env1 ex_lines" 0 ex_created
             "[Update ex_env2 ''co_1'' ex_lines', Complete ex_env3 ''co_1'']"]
       wf_empty_store st
  show ?thesis by simp
qed

text \<open>
  C10. A mutation that succeeds on a \<open>CREATED\<close> checkout changes only the fields it is
  for. After \<open>updateCheckout\<close> the stored checkout has the new lines and the new
  \<open>updatedAt\<close>, and the id, status and \<open>createdAt\<close> it had. After \<open>completeCheckout\<close>
  (\<open>cancelCheckout\<close>) it has status \<open>COMPLETED\<close> (\<open>CANCELED\<close>) and the new \<open>updatedAt\<close>,
  and the id, lines and \<open>createdAt\<close> it had.
\<close>

theorem mutations_change_only_their_fields:
  "store s i = Some r \<and> status (deref s r) = CREATED \<longrightarrow>
     (case updateCheckout e i ls s of
        (Some r', s') \<Rightarrow>
          getCheckout i s' = Some r' \<and>
          lines (deref s' r') = ls \<and> updatedAt (deref s' r') = now e \<and>
          cid (deref s' r') = cid (deref s r) \<and>
          status (deref s' r') = status (deref s r) \<and>
          createdAt (deref s' r') = createdAt (deref s r)
      | (None, s') \<Rightarrow> False) \<and>
     (case completeCheckout e i s of
        (Some r', s') \<Rightarrow>
          getCheckout i s' = Some r' \<and>
          status (deref s' r') = COMPLETED \<and> updatedAt (deref s' r') = now e \<and>
          cid (deref s' r') = cid (deref s r) \<and>
          lines (deref s' r') = lines (deref s r) \<and>
          createdAt (deref s' r') = createdAt (deref s r)
      | (None, s') \<Rightarrow> False) \<and>
     (case cancelCheckout e i s of
        (Some r', s') \<Rightarrow>
          getCheckout i s' = Some r' \<and>
          status (deref s' r') = CANCELED \<and> updatedAt (deref s' r') = now e \<and>
          cid (deref s' r') = cid (deref s r) \<and>
          lines (deref s' r') = lines (deref s r) \<and>
          createdAt (deref s' r') = createdAt (deref s r)
      | (None, s') \<Rightarrow> False)"
  by (simp add: store_defs Let_def)

theorem mutations_change_only_their_fields_witness:
  "store ex_created ''co_1'' = Some 0 \<and> status (deref ex_created 0) = CREATED \<and>
   fst (updateCheckout ex_env2 ''co_1'' ex_lines' ex_created) = Some 1 \<and>
   deref (snd (updateCheckout ex_env2 ''co_1'' ex_lines' ex_created)) 1 =
     \<lparr>cid = ''co_1'', status = CREATED, lines = ex_lines', createdAt = ''t1'', updatedAt = ''t2''\<rparr> \<and>
   fst (completeCheckout ex_env2 ''co_1'' ex_created) = Some 1 \<and>
   deref (snd (completeCheckout ex_env2 ''co_1'' ex_created)) 1 =
     \<lparr>cid = ''co_1'', status = COMPLETED, lines = ex_lines, createdAt = ''t1'', updatedAt = ''t2''\<rparr> \<and>
   fst (cancelCheckout ex_env2 ''co_1'' ex_created) = Some 1 \<and>
   deref (snd (cancelCheckout ex_env2 ''co_1'' ex_created)) 1 =
     \<lparr>cid = ''co_1'', status = CANCELED, lines = ex_lines, createdAt = ''t1'', updatedAt = ''t2''\<rparr>"
  using mutations_change_only_their_fields
          [where s = ex_created and i = "''co_1''" and r = 0 and e = ex_env2 and ls = ex_lines']
  by (simp add: ex_created_eq ex_env2_def store_defs Let_def)

section \<open>Validation at the Resource API\<close>

text \<open>
  C2. The two handlers break the claim: \<open>POST /api/ucp/checkout\<close> with the one line
  \<open>{productId: "p1", quantity: 0}\<close> answers 201 and files the checkout, and
  \<open>PATCH /api/ucp/checkout/co_1\<close> with quantity \<open>-1/2\<close> answers 200 with the new lines.
  (Both gateways refuse these quantities: \<open>bad_quantity_rejected\<close> below.)
\<close>

theorem resource_api_accepts_invalid_quantity:
  "fst (POST_checkout ex_env1 (Body (Array ex_zero_lines)) empty_store) =
     Response 201 (CheckoutJson \<lparr>cid = ''co_1'', status = CREATED, lines = ex_zero_lines,
                                 createdAt = ''t1'', updatedAt = ''t1''\<rparr>) \<and>
   getCheckout ''co_1'' (snd (POST_checkout ex_env1 (Body (Array ex_zero_lines)) empty_store)) = Some 0 \<and>
   fst (PATCH_checkout ex_env2 ''co_1'' (Body (Array ex_half_lines)) ex_created) =
     Response 200 (CheckoutJson \<lparr>cid = ''co_1'', status = CREATED, lines = ex_half_lines,
                                 createdAt = ''t1'', updatedAt = ''t2''\<rparr>) \<and>
   quantity (hd ex_zero_lines) = 0 \<and> quantity (hd ex_half_lines) < 0 \<and>
   \<not> is_integer (quantity (hd ex_half_lines))"
proof -
  have "\<not> is_integer (- 1 / 2)" by code_simp
  then show ?thesis
    by (simp add: POST_checkout_def PATCH_checkout_def lines_or_empty_def ex_zero_lines_def
          ex_half_lines_def ex_env1_def ex_env2_def ex_created_eq store_defs empty_store_def
          Let_def)
qed

text \<open>
  The guard the two handlers do have, \<open>!Array.isArray(lines) || lines.length === 0\<close>: a
  request whose body is not JSON or whose line list is missing, not an array or empty is
  answered 400 and leaves the store as it was; every other request passes the guard.
\<close>

lemma resource_api_guard:
  "(req \<in> {InvalidJson, Body Undefined, Body NonArray, Body (Array [])} \<longrightarrow>
      code (fst (POST_checkout e req s)) = 400 \<and> snd (POST_checkout e req s) = s \<and>
      code (fst (PATCH_checkout e i req s)) = 400 \<and> snd (PATCH_checkout e i req s) = s) \<and>
   (ls \<noteq> [] \<longrightarrow>
      code (fst (POST_checkout e (Body (Array ls)) s)) = 201 \<and>
      code (fst (PATCH_checkout e i (Body (Array ls)) s)) = (if store s i = None then 404 else 200))"
  by (auto simp: POST_checkout_def PATCH_checkout_def lines_or_empty_def lines_error_def
        json_error_def not_found_def store_defs Let_def split: option.splits prod.splits)

lemma resource_api_guard_example:
  "code (fst (POST_checkout ex_env1 (Body (Array [])) ex_created)) = 400 \<and>
   snd (POST_checkout ex_env1 (Body (Array [])) ex_created) = ex_created \<and>
   code (fst (PATCH_checkout ex_env1 ''co_1'' (Body (Array [])) ex_created)) = 400 \<and>
   snd (PATCH_checkout ex_env1 ''co_1'' (Body (Array [])) ex_created) = ex_created \<and>
   ex_zero_lines \<noteq> [] \<and>
   code (fst (POST_checkout ex_env1 (Body (Array ex_zero_lines)) ex_created)) = 201 \<and>
   code (fst (PATCH_checkout ex_env1 ''co_1'' (Body (Array ex_zero_lines)) ex_created)) = 200"
  using resource_api_guard
          [where req = "Body (Array [])" and e = ex_env1 and s = ex_created and i = "''co_1''"
             and ls = ex_zero_lines]
  by (simp add: ex_zero_lines_def ex_created_eq)

section \<open>Validation at the gateways\<close>

lemmas http_handler_defs =
  http_create_checkout_def http_get_checkout_def http_update_checkout_def
  http_complete_checkout_def http_cancel_checkout_def

lemmas stdio_handler_defs =
  stdio_create_checkout_def stdio_get_checkout_def stdio_update_checkout_def
  stdio_complete_checkout_def stdio_cancel_checkout_def

lemmas schema_defs =
  parse_CreateCheckoutParams_def parse_IdParams_def parse_UpdateCheckoutParams_def

lemma those_None: "None \<in> set xs \<Longrightarrow> those xs = None"
  by (induction xs) (auto split: option.splits)

lemma z_array_bad_element:
  assumes "x \<in> set xs" "parse_LineItem x = None"
  shows "z_array_LineItem_min1 (Some (JArr xs)) = None"
proof -
  have "None \<in> set (map parse_LineItem xs)"
    using assms by (metis image_eqI set_map)
  then show ?thesis by (simp add: those_None)
qed

lemma missing_item_id_rejected:
  "(case get_field ''item'' x of None \<Rightarrow> True | Some it \<Rightarrow> get_field ''id'' it = None)
     \<Longrightarrow> parse_LineItem x = None"
  by (auto simp: parse_LineItem_def split: option.splits)

lemma bad_quantity_rejected:
  "get_field ''quantity'' x = Some (JNum q) \<Longrightarrow> q \<le> 0 \<or> \<not> is_integer q
     \<Longrightarrow> parse_LineItem x = None"
  by (auto simp: parse_LineItem_def split: option.splits)

lemma malformed_line_items_None:
  assumes "get_field ''line_items'' args = Some (JArr xs)"
      and "xs = [] \<or>
           (\<exists>x\<in>set xs.
              (case get_field ''item'' x of None \<Rightarrow> True | Some it \<Rightarrow> get_field ''id'' it = None) \<or>
              (\<exists>q. get_field ''quantity'' x = Some (JNum q) \<and> (q \<le> 0 \<or> \<not> is_integer q)))"
  shows "z_array_LineItem_min1 (get_field ''line_items'' args) = None"
proof -
  from assms(2) consider "xs = []" | x where "x \<in> set xs" "parse_LineItem x = None"
    using missing_item_id_rejected bad_quantity_rejected by blast
  then show ?thesis
  proof cases
    case 1
    then show ?thesis using assms(1) by simp
  next
    case 2
    then show ?thesis using assms(1) z_array_bad_element by simp
  qed
qed

lemma schemas_reject_line_items:
  "z_array_LineItem_min1 (get_field ''line_items'' args) = None \<Longrightarrow>
     parse_CreateCheckoutParams args = None \<and> parse_UpdateCheckoutParams args = None"
  by (simp add: parse_CreateCheckoutParams_def parse_UpdateCheckoutParams_def
        split: option.splits)

text \<open>
  C6. When the \<open>line_items\<close> of a \<open>create_checkout\<close> or \<open>update_checkout\<close> call are an
  empty list, or hold a line with no \<open>item.id\<close> or with a quantity that is zero, negative
  or not an integer, the schema of the tool refuses the arguments, so on either gateway
  the call fails with \<open>InvalidInput\<close> and the world is as before: no request has been sent
  to the Resource API.
\<close>

theorem malformed_line_items_fail_before_upstream:
  assumes "get_field ''line_items'' args = Some (JArr xs)"
      and "xs = [] \<or>
           (\<exists>x\<in>set xs.
              (case get_field ''item'' x of None \<Rightarrow> True | Some it \<Rightarrow> get_field ''id'' it = None) \<or>
              (\<exists>q. get_field ''quantity'' x = Some (JNum q) \<and> (q \<le> 0 \<or> \<not> is_integer q)))"
  shows "parse_CreateCheckoutParams args = None \<and>
         parse_UpdateCheckoutParams args = None \<and>
         http_tools_call ''create_checkout'' args e w = (Inl InvalidInput, w) \<and>
         http_tools_call ''update_checkout'' args e w = (Inl InvalidInput, w) \<and>
         stdio_tools_call ''create_checkout'' args e w = (Inl InvalidInput, w) \<and>
         stdio_tools_call ''update_checkout'' args e w = (Inl InvalidInput, w) \<and>
         sent (snd (http_tools_call ''create_checkout'' args e w)) = sent w \<and>
         sent (snd (http_tools_call ''update_checkout'' args e w)) = sent w \<and>
         sent (snd (stdio_tools_call ''create_checkout'' args e w)) = sent w \<and>
         sent (snd (stdio_tools_call ''update_checkout'' args e w)) = sent w"
  using schemas_reject_line_items[OF malformed_line_items_None[OF assms]]
  by (simp add: http_tools_call_def stdio_tools_call_def call_tool_def)

theorem malformed_line_items_fail_before_upstream_witness:
  "get_field ''line_items'' (create_arguments ex_zero_lines) =
     Some (JArr (map line_item_json ex_zero_lines)) \<and>
   get_field ''quantity'' (line_item_json (hd ex_zero_lines)) = Some (JNum 0) \<and>
   http_tools_call ''create_checkout'' (create_arguments ex_zero_lines) ex_env1 ex_world =
     (Inl InvalidInput, ex_world) \<and>
   sent (snd (http_tools_call ''create_checkout'' (create_arguments ex_zero_lines) ex_env1 ex_world)) = []"
proof -
  have a: "get_field ''line_items'' (create_arguments ex_zero_lines) =
             Some (JArr (map line_item_json ex_zero_lines))"
    by (simp add: create_arguments_def)
  have b: "get_field ''quantity'' (line_item_json (hd ex_zero_lines)) = Some (JNum 0)"
    by (simp add: line_item_json_def ex_zero_lines_def)
  have c: "map line_item_json ex_zero_lines = [] \<or>
           (\<exists>x\<in>set (map line_item_json ex_zero_lines).
              (case get_field ''item'' x of None \<Rightarrow> True | Some it \<Rightarrow> get_field ''id'' it = None) \<or>
              (\<exists>q. get_field ''quantity'' x = Some (JNum q) \<and> (q \<le> 0 \<or> \<not> is_integer q)))"
    by (simp add: line_item_json_def ex_zero_lines_def)
  from malformed_line_items_fail_before_upstream[OF a c, of ex_env1 ex_world] a b
  show ?thesis by (simp add: ex_world_def)
qed

subsection \<open>The profile tag\<close>

lemma is_integer_2: "is_integer 2"
  by code_simp

lemma parse_ex_bogus:
  "parse_CreateCheckoutParams ex_bogus_arguments =
     Some \<lparr>profile = ''no.such.profile.v99'', idempotency_key = None, currency = None,
           line_items = [\<lparr>item = \<lparr>item_id = ''p1''\<rparr>, li_quantity = 2\<rparr>]\<rparr>"
  by (simp add: ex_bogus_arguments_def parse_CreateCheckoutParams_def parse_MetaShape_def
        parse_LineItem_def line_item_json_def ex_lines_def is_integer_2)

text \<open>
  C7, as the claim states it, fails: a \<open>create_checkout\<close> call tagged
  \<open>no.such.profile.v99\<close>, which is not the profile the client sends and which nothing in
  the program names, passes the schema, is sent to the Resource API and returns the new
  checkout, on both gateways.
\<close>

theorem unrecognized_profile_is_accepted:
  "''no.such.profile.v99'' \<noteq> UCP_PROFILE \<and>
   parse_MetaShape ex_bogus_arguments = Some ''no.such.profile.v99'' \<and>
   fst (http_tools_call ''create_checkout'' ex_bogus_arguments ex_env1 ex_world) =
     Inr (checkout_content
            (CheckoutJson \<lparr>cid = ''co_1'', status = CREATED, lines = ex_lines,
                           createdAt = ''t1'', updatedAt = ''t1''\<rparr>)) \<and>
   sent (snd (http_tools_call ''create_checkout'' ex_bogus_arguments ex_env1 ex_world)) =
     [ReqCreate (Body (Array ex_lines))] \<and>
   fst (stdio_tools_call ''create_checkout'' ex_bogus_arguments ex_env1 ex_world) =
     Inr (checkout_content
            (UcpCheckoutJson \<lparr>u_id = ''co_1'', u_status = CREATED,
                 u_line_items = [\<lparr>item = \<lparr>item_id = ''p1''\<rparr>, li_quantity = 2\<rparr>],
                 u_createdAt = ''t1'', u_updatedAt = ''t1''\<rparr>))"
proof -
  have m: "parse_MetaShape ex_bogus_arguments = Some ''no.such.profile.v99''"
    by (simp add: ex_bogus_arguments_def parse_MetaShape_def)
  have u: "''no.such.profile.v99'' \<noteq> UCP_PROFILE"
    by (simp add: UCP_PROFILE_def)
  have h: "http_tools_call ''create_checkout'' ex_bogus_arguments ex_env1 ex_world =
      (Inr (checkout_content
            (CheckoutJson \<lparr>cid = ''co_1'', status = CREATED, lines = ex_lines,
                           createdAt = ''t1'', updatedAt = ''t1''\<rparr>)),
       ex_world\<lparr>sent := [ReqCreate (Body (Array ex_lines))], app := ex_created\<rparr>)"
    by (simp add: http_tools_call_def call_tool_def parse_ex_bogus http_create_checkout_def
          fetch_upstream_def ex_world_def toLines_def POST_checkout_def lines_or_empty_def
          assertOk_def ok_def ex_created_eq ex_env1_def store_defs empty_store_def Let_def
          ex_lines_def)
  have s: "fst (stdio_tools_call ''create_checkout'' ex_bogus_arguments ex_env1 ex_world) =
     Inr (checkout_content
            (UcpCheckoutJson \<lparr>u_id = ''co_1'', u_status = CREATED,
                 u_line_items = [\<lparr>item = \<lparr>item_id = ''p1''\<rparr>, li_quantity = 2\<rparr>],
                 u_createdAt = ''t1'', u_updatedAt = ''t1''\<rparr>))"
    by (simp add: stdio_tools_call_def call_tool_def parse_ex_bogus stdio_create_checkout_def
          rest_def ucp_result_def toUcpCheckout_def
          fetch_upstream_def ex_world_def toRestLines_def POST_checkout_def lines_or_empty_def
          ok_def ex_env1_def store_defs empty_store_def Let_def ex_lines_def)
  from m u h s show ?thesis by simp
qed

lemma http_handlers_ignore_profile:
  "http_create_checkout (p\<lparr>profile := x\<rparr>) = http_create_checkout p"
  "http_get_checkout (q\<lparr>profile := x\<rparr>) = http_get_checkout q"
  "http_update_checkout (u\<lparr>profile := x\<rparr>) = http_update_checkout u"
  "http_complete_checkout (q\<lparr>profile := x\<rparr>) = http_complete_checkout q"
  "http_cancel_checkout (q\<lparr>profile := x\<rparr>) = http_cancel_checkout q"
  by (simp_all add: http_handler_defs fun_eq_iff)

lemma stdio_handlers_ignore_profile:
  "stdio_create_checkout (p\<lparr>profile := x\<rparr>) = stdio_create_checkout p"
  "stdio_get_checkout (q\<lparr>profile := x\<rparr>) = stdio_get_checkout q"
  "stdio_update_checkout (u\<lparr>profile := x\<rparr>) = stdio_update_checkout u"
  "stdio_complete_checkout (q\<lparr>profile := x\<rparr>) = stdio_complete_checkout q"
  "stdio_cancel_checkout (q\<lparr>profile := x\<rparr>) = stdio_cancel_checkout q"
  by (simp_all add: stdio_handler_defs fun_eq_iff)

lemma parse_MetaShape_tagged:
  "parse_MetaShape (JObj ((''_meta'', JObj [(''ucp'', JObj [(''profile'', JStr x)])]) # kvs)) =
     (if x = [] then None else Some x)"
  by (cases x) (simp_all add: parse_MetaShape_def)

lemma schemas_tagged:
  assumes "x \<noteq> []" "y \<noteq> []"
  shows
  "parse_CreateCheckoutParams (JObj ((''_meta'', JObj [(''ucp'', JObj [(''profile'', JStr x)])]) # kvs)) =
     map_option (\<lambda>p. p\<lparr>profile := x\<rparr>)
       (parse_CreateCheckoutParams (JObj ((''_meta'', JObj [(''ucp'', JObj [(''profile'', JStr y)])]) # kvs)))"
  "parse_IdParams (JObj ((''_meta'', JObj [(''ucp'', JObj [(''profile'', JStr x)])]) # kvs)) =
     map_option (\<lambda>p. p\<lparr>profile := x\<rparr>)
       (parse_IdParams (JObj ((''_meta'', JObj [(''ucp'', JObj [(''profile'', JStr y)])]) # kvs)))"
  "parse_UpdateCheckoutParams (JObj ((''_meta'', JObj [(''ucp'', JObj [(''profile'', JStr x)])]) # kvs)) =
     map_option (\<lambda>p. p\<lparr>profile := x\<rparr>)
       (parse_UpdateCheckoutParams (JObj ((''_meta'', JObj [(''ucp'', JObj [(''profile'', JStr y)])]) # kvs)))"
  using assms
  by (simp_all add: schema_defs parse_MetaShape_tagged split: option.splits)

lemma parse_MetaShape_Some:
  "parse_MetaShape args = Some x \<Longrightarrow>
     \<exists>m u. get_field ''_meta'' args = Some m \<and> get_field ''ucp'' m = Some u \<and>
           get_field ''profile'' u = Some (JStr x) \<and> x \<noteq> []"
  by (auto simp: parse_MetaShape_def split: option.splits
           elim!: z_string_min1.elims split: if_splits)

lemma no_tag_schemas:
  "parse_MetaShape args = None \<Longrightarrow>
     parse_CreateCheckoutParams args = None \<and> parse_IdParams args = None \<and>
     parse_UpdateCheckoutParams args = None"
  by (simp add: schema_defs)

text \<open>
  C7, amended. Of the profile tag of a tool call the gateway checks only that it is there
  and is a non-empty string: a call to any of the five tools whose \<open>_meta.ucp.profile\<close> is
  missing, not a string or empty fails with \<open>InvalidInput\<close> before its handler runs, and a
  call with any non-empty tag is handled exactly as the same call tagged
  \<open>ucp.checkout.v1\<close>. No tag is refused for being unknown.
\<close>

theorem profile_tag_only_checked_nonempty:
  "(name \<in> {''create_checkout'', ''get_checkout'', ''update_checkout'', ''complete_checkout'',
             ''cancel_checkout''} \<and>
    (\<forall>m u x. get_field ''_meta'' args = Some m \<longrightarrow> get_field ''ucp'' m = Some u \<longrightarrow>
               get_field ''profile'' u = Some (JStr x) \<longrightarrow> x = []) \<longrightarrow>
      http_tools_call name args e w = (Inl InvalidInput, w) \<and>
      stdio_tools_call name args e w = (Inl InvalidInput, w)) \<and>
   (x \<noteq> [] \<longrightarrow>
      http_tools_call name
          (JObj ((''_meta'', JObj [(''ucp'', JObj [(''profile'', JStr x)])]) # kvs)) e w =
        http_tools_call name
          (JObj ((''_meta'', JObj [(''ucp'', JObj [(''profile'', JStr UCP_PROFILE)])]) # kvs)) e w \<and>
      stdio_tools_call name
          (JObj ((''_meta'', JObj [(''ucp'', JObj [(''profile'', JStr x)])]) # kvs)) e w =
        stdio_tools_call name
          (JObj ((''_meta'', JObj [(''ucp'', JObj [(''profile'', JStr UCP_PROFILE)])]) # kvs)) e w)"
proof (intro conjI impI)
  assume a: "name \<in> {''create_checkout'', ''get_checkout'', ''update_checkout'',
                      ''complete_checkout'', ''cancel_checkout''} \<and>
    (\<forall>m u x. get_field ''_meta'' args = Some m \<longrightarrow> get_field ''ucp'' m = Some u \<longrightarrow>
               get_field ''profile'' u = Some (JStr x) \<longrightarrow> x = [])"
  have "parse_MetaShape args = None"
  proof (cases "parse_MetaShape args")
    case None
    then show ?thesis .
  next
    case (Some y)
    from parse_MetaShape_Some[OF Some] a show ?thesis by blast
  qed
  note n = no_tag_schemas[OF this]
  from a n show "http_tools_call name args e w = (Inl InvalidInput, w)"
    by (auto simp: http_tools_call_def call_tool_def)
  from a n show "stdio_tools_call name args e w = (Inl InvalidInput, w)"
    by (auto simp: stdio_tools_call_def call_tool_def)
next
  assume x: "x \<noteq> []"
  have u: "UCP_PROFILE \<noteq> []" by (simp add: UCP_PROFILE_def)
  note t = schemas_tagged[OF x u, of kvs]
  show "http_tools_call name
          (JObj ((''_meta'', JObj [(''ucp'', JObj [(''profile'', JStr x)])]) # kvs)) e w =
        http_tools_call name
          (JObj ((''_meta'', JObj [(''ucp'', JObj [(''profile'', JStr UCP_PROFILE)])]) # kvs)) e w"
    unfolding http_tools_call_def call_tool_def
    by (simp add: t http_handlers_ignore_profile split: option.splits)
  show "stdio_tools_call name
          (JObj ((''_meta'', JObj [(''ucp'', JObj [(''profile'', JStr x)])]) # kvs)) e w =
        stdio_tools_call name
          (JObj ((''_meta'', JObj [(''ucp'', JObj [(''profile'', JStr UCP_PROFILE)])]) # kvs)) e w"
    unfolding stdio_tools_call_def call_tool_def
    by (simp add: t stdio_handlers_ignore_profile split: option.splits)
qed

theorem profile_tag_only_checked_nonempty_witness:
  "get_field ''_meta'' ex_untagged_arguments = Some (JObj [(''ucp'', JObj [(''profile'', JStr [])])]) \<and>
   http_tools_call ''create_checkout'' ex_untagged_arguments ex_env1 ex_world =
     (Inl InvalidInput, ex_world) \<and>
   stdio_tools_call ''create_checkout'' ex_untagged_arguments ex_env1 ex_world =
     (Inl InvalidInput, ex_world) \<and>
   http_tools_call ''create_checkout'' ex_bogus_arguments ex_env1 ex_world =
     http_tools_call ''create_checkout'' (create_arguments ex_lines) ex_env1 ex_world \<and>
   stdio_tools_call ''create_checkout'' ex_bogus_arguments ex_env1 ex_world =
     stdio_tools_call ''create_checkout'' (create_arguments ex_lines) ex_env1 ex_world"
proof -
  have g: "get_field ''_meta'' ex_untagged_arguments =
             Some (JObj [(''ucp'', JObj [(''profile'', JStr [])])])"
    by (simp add: ex_untagged_arguments_def)
  have a: "\<forall>m u x. get_field ''_meta'' ex_untagged_arguments = Some m \<longrightarrow>
             get_field ''ucp'' m = Some u \<longrightarrow> get_field ''profile'' u = Some (JStr x) \<longrightarrow> x = []"
    by (auto simp: ex_untagged_arguments_def)
  have n: "''no.such.profile.v99'' \<noteq> ([] :: string)" by simp
  from g a n
       profile_tag_only_checked_nonempty
         [where name = "''create_checkout''" and args = ex_untagged_arguments
            and e = ex_env1 and w = ex_world and x = "''no.such.profile.v99''"
            and kvs = "[(''line_items'', JArr (map line_item_json ex_lines))]"]
  show ?thesis
    by (simp add: ex_bogus_arguments_def create_arguments_def meta_json_def)
qed

section \<open>The routes that choose a binding: falling back\<close>



subsection \<open>The catch blocks and the direct routes\<close>








subsection \<open>The client, step by step, in terms of what the server answers\<close>























section \<open>The two bindings on the same line list\<close>

















end
